theory Spec2Isabelle
  imports Complex_Main "HOL-Library.Stream" "HOL-Library.Sublist"
begin

section \<open>MoodTunes: the synthesis engine and the mood server\<close>

text \<open>
  The audio generator (the module that follows the component in
  \<^verbatim>\<open>client/src/components/history-section.tsx\<close>) renders a stereo buffer from a
  \<^verbatim>\<open>MusicParams\<close> value; the server routes (\<^verbatim>\<open>unnamed/part_000\<close>) classify a text and
  create track entries.

  JavaScript numbers are modelled as mathematical reals (\<^typ>\<open>real\<close>), array indices and
  counts as \<^typ>\<open>int\<close> and \<^typ>\<open>nat\<close>: IEEE-754 rounding, NaN and the infinities are not
  part of the model. \<^verbatim>\<open>Math.random()\<close> is a stream of reals that every call consumes
  the head of.
\<close>

subsection \<open>JavaScript primitives\<close>

text \<open>\<^verbatim>\<open>Array.prototype.indexOf\<close>: the first position of the element, \<open>-1\<close> when absent.\<close>

fun indexOf_from :: "'a list \<Rightarrow> 'a \<Rightarrow> int \<Rightarrow> int" where
  "indexOf_from [] x i = - 1"
| "indexOf_from (y # ys) x i = (if y = x then i else indexOf_from ys x (i + 1))"

definition indexOf :: "'a list \<Rightarrow> 'a \<Rightarrow> int" where
  "indexOf xs x = indexOf_from xs x 0"

text \<open>Reading \<^verbatim>\<open>xs[i]\<close>: \<^verbatim>\<open>undefined\<close> (here \<open>None\<close>) outside \<open>0 .. length - 1\<close>.\<close>

definition elemAt :: "'a list \<Rightarrow> int \<Rightarrow> 'a option" where
  "elemAt xs i = (if 0 \<le> i \<and> i < int (length xs) then Some (xs ! nat i) else None)"

text \<open>\<^verbatim>\<open>s.charAt(0)\<close>: the one-character string at position 0, the empty string if there is none.\<close>

definition charAt0 :: "string \<Rightarrow> string" where
  "charAt0 s = (case s of [] \<Rightarrow> [] | c # _ \<Rightarrow> [c])"

text \<open>
  The remainder operator \<^verbatim>\<open>%\<close> truncates the quotient towards zero, so the result has
  the sign of the dividend. On a zero divisor JavaScript yields NaN; the model is used
  with non-zero divisors only.
\<close>

definition js_trunc :: "real \<Rightarrow> int" where
  "js_trunc z = (if z < 0 then \<lceil>z\<rceil> else \<lfloor>z\<rfloor>)"

definition js_rem :: "real \<Rightarrow> real \<Rightarrow> real" where
  "js_rem x y = x - y * of_int (js_trunc (x / y))"

definition js_rem_int :: "int \<Rightarrow> int \<Rightarrow> int" where
  "js_rem_int a b = (if a < 0 then - ((- a) mod \<bar>b\<bar>) else a mod \<bar>b\<bar>)"

subsection \<open>Music theory: notes, scales, frequencies, chord progressions\<close>

datatype scale_mode = Major | Minor

text \<open>The string behind a value of the type \<^verbatim>\<open>'major' | 'minor'\<close>.\<close>

fun scale_name :: "scale_mode \<Rightarrow> string" where
  "scale_name Major = ''major''"
| "scale_name Minor = ''minor''"

record MusicParams =
  tempo :: real
  key :: string
  scale :: scale_mode
  rhythm :: string

fun scales :: "scale_mode \<Rightarrow> int list" where
  "scales Major = [0, 2, 4, 5, 7, 9, 11]"
| "scales Minor = [0, 2, 3, 5, 7, 8, 10]"

definition noteMap :: "string list" where
  "noteMap = [''C'', ''C#'', ''D'', ''D#'', ''E'', ''F'', ''F#'', ''G'', ''G#'', ''A'', ''A#'', ''B'']"

text \<open>
  \<^verbatim>\<open>scaleNotes\<close> of \<^verbatim>\<open>generateAudioFromMood\<close>: only the first character of the key is
  looked up; an index outside the note map reads \<^verbatim>\<open>undefined\<close>.
\<close>

definition scaleNotes :: "string \<Rightarrow> scale_mode \<Rightarrow> string option list" where
  "scaleNotes k m =
     (let keyIndex = indexOf noteMap (charAt0 k)
      in map (\<lambda>interval.
                let noteIndex = js_rem_int (keyIndex + interval) 12
                in elemAt noteMap noteIndex) (scales m))"

text \<open>
  The scale as the specification words it (\<^verbatim>\<open>buildScale(key, mode)\<close>), for comparison with
  \<open>scaleNotes\<close>: the mode's interval pattern applied to the chromatic index of the root
  itself, wrapping modulo 12.
\<close>

definition buildScale_spec :: "string \<Rightarrow> scale_mode \<Rightarrow> string list" where
  "buildScale_spec root_note m =
     map (\<lambda>interval. noteMap ! nat ((indexOf noteMap root_note + interval) mod 12)) (scales m)"

text \<open>
  \<^verbatim>\<open>getFrequency\<close> (the inner function of \<^verbatim>\<open>generateAudioFromMood\<close> and the module-level
  helper are the same text). There is no validation and no \<^verbatim>\<open>throw\<close>: a note outside the
  note map has index \<open>-1\<close>.
\<close>

definition frequencyAt :: "int \<Rightarrow> real \<Rightarrow> real" where
  "frequencyAt noteIndex octave =
     440 * 2 powr ((of_int noteIndex - 9 + (octave - 4) * 12) / 12)"

definition getFrequency :: "string \<Rightarrow> real \<Rightarrow> real" where
  "getFrequency note octave = frequencyAt (indexOf noteMap note) octave"

text \<open>
  The call \<^verbatim>\<open>getFrequency(scaleNotes[j], octave)\<close> on an array element, which may be
  \<^verbatim>\<open>undefined\<close>; \<^verbatim>\<open>noteMap.indexOf(undefined)\<close> is \<open>-1\<close>.
\<close>

definition getFrequencyOf :: "string option \<Rightarrow> real \<Rightarrow> real" where
  "getFrequencyOf n octave =
     (case n of Some note \<Rightarrow> getFrequency note octave | None \<Rightarrow> frequencyAt (- 1) octave)"

text \<open>
  The outcome of a call of \<^verbatim>\<open>getFrequency\<close> as a result value: the source has no failing
  branch, so the call always completes with a number.
\<close>

datatype error = ConfigurationError | TypeError

definition getFrequency_outcome :: "string \<Rightarrow> real \<Rightarrow> error + real" where
  "getFrequency_outcome note octave = Inr (getFrequency note octave)"

definition getChordProgression :: "string \<Rightarrow> int list" where
  "getChordProgression s = (if s = ''minor'' then [0, 2, 5, 0] else [0, 3, 4, 0])"

text \<open>\<^verbatim>\<open>const chordProgression = getChordProgression(params.scale)\<close>.\<close>

definition chordProgression :: "MusicParams \<Rightarrow> int list" where
  "chordProgression p = getChordProgression (scale_name (scale p))"

subsection \<open>The mood vibe table\<close>

record MoodVibe =
  bassType :: string
  melodyStyle :: string
  harmony :: string
  effects :: "string list"
  rhythmComplexity :: nat

text \<open>The object literal \<^verbatim>\<open>vibes\<close> of \<^verbatim>\<open>getMoodVibe\<close>: its own properties, in source order.\<close>

definition vibes :: "(string \<times> MoodVibe) list" where
  "vibes =
    [(''upbeat'', \<lparr>bassType = ''bouncy'', melodyStyle = ''dancing'', harmony = ''bright'',
        effects = [''sparkle'', ''bounce''], rhythmComplexity = 4\<rparr>),
     (''slow'', \<lparr>bassType = ''melancholic'', melodyStyle = ''sorrowful'', harmony = ''emotional'',
        effects = [''reverb'', ''tears''], rhythmComplexity = 1\<rparr>),
     (''driving'', \<lparr>bassType = ''pounding'', melodyStyle = ''soaring'', harmony = ''powerful'',
        effects = [''distortion'', ''pulse''], rhythmComplexity = 8\<rparr>),
     (''flowing'', \<lparr>bassType = ''gentle'', melodyStyle = ''floating'', harmony = ''peaceful'',
        effects = [''wave'', ''breath''], rhythmComplexity = 2\<rparr>),
     (''irregular'', \<lparr>bassType = ''restless'', melodyStyle = ''uncertain'', harmony = ''unsettled'',
        effects = [''flutter'', ''hesitate''], rhythmComplexity = 5\<rparr>),
     (''gentle'', \<lparr>bassType = ''soft'', melodyStyle = ''lullaby'', harmony = ''warm'',
        effects = [''whisper'', ''glow''], rhythmComplexity = 1\<rparr>),
     (''energetic'', \<lparr>bassType = ''jumping'', melodyStyle = ''celebrating'', harmony = ''vibrant'',
        effects = [''burst'', ''fizz''], rhythmComplexity = 6\<rparr>),
     (''contemplative'', \<lparr>bassType = ''hollow'', melodyStyle = ''longing'', harmony = ''nostalgic'',
        effects = [''drift'', ''memory''], rhythmComplexity = 1\<rparr>),
     (''steady'', \<lparr>bassType = ''solid'', melodyStyle = ''precise'', harmony = ''clear'',
        effects = [''focus'', ''sharp''], rhythmComplexity = 2\<rparr>),
     (''romantic'', \<lparr>bassType = ''warm'', melodyStyle = ''tender'', harmony = ''intimate'',
        effects = [''caress'', ''velvet''], rhythmComplexity = 3\<rparr>)]"

text \<open>
  \<^verbatim>\<open>vibes\<close> is an ordinary object, so \<^verbatim>\<open>vibes[rhythm]\<close> also finds the properties that
  every object inherits from \<^verbatim>\<open>Object.prototype\<close>. Each of them is a function or an
  object, hence truthy, and \<^verbatim>\<open>||\<close> returns it.
\<close>

definition objectPrototypeProperties :: "string list" where
  "objectPrototypeProperties =
    [''constructor'', ''hasOwnProperty'', ''isPrototypeOf'', ''propertyIsEnumerable'',
     ''toLocaleString'', ''toString'', ''valueOf'', ''__proto__'',
     ''__defineGetter__'', ''__defineSetter__'', ''__lookupGetter__'', ''__lookupSetter__'']"

text \<open>
  What reading \<^verbatim>\<open>table[name]\<close> on an object literal finds: an own property of the
  literal, or a property inherited from \<^verbatim>\<open>Object.prototype\<close> (named, not modelled further).
\<close>

datatype 'a property = Own 'a | Inherited string

text \<open>\<^verbatim>\<open>return vibes[rhythm as keyof typeof vibes] || vibes['flowing']\<close>.\<close>

definition getMoodVibe :: "string \<Rightarrow> real \<Rightarrow> string \<Rightarrow> MoodVibe property" where
  "getMoodVibe r t s =
     (case map_of vibes r of
        Some v \<Rightarrow> Own v
      | None \<Rightarrow>
          if r \<in> set objectPrototypeProperties then Inherited r
          else Own (the (map_of vibes ''flowing'')))"

subsection \<open>Oscillator and noise primitives\<close>

datatype waveType = Sine | Triangle | Sawtooth

definition generateWaveform :: "real \<Rightarrow> real \<Rightarrow> waveType \<Rightarrow> real" where
  "generateWaveform frequency time ty =
     (let phase = 2 * pi * frequency * time
      in case ty of
           Sine \<Rightarrow> sin phase
         | Triangle \<Rightarrow> (2 / pi) * arcsin (sin phase)
         | Sawtooth \<Rightarrow> 2 * (phase / (2 * pi) - of_int \<lfloor>phase / (2 * pi) + 0.5\<rfloor>))"

type_synonym rng = "real stream"

text \<open>\<^verbatim>\<open>Math.random()\<close>: the next draw and the remaining source.\<close>

definition Math_random :: "rng \<Rightarrow> real \<times> rng" where
  "Math_random g = (shd g, stl g)"

definition generateNoise :: "real \<Rightarrow> rng \<Rightarrow> real \<times> rng" where
  "generateNoise time g =
     (case Math_random g of (r, g') \<Rightarrow> ((r * 2 - 1) * exp (- time * 10), g'))"

subsection \<open>Layer generators\<close>

text \<open>
  \<^verbatim>\<open>generateBass\<close>. In the \<^verbatim>\<open>pounding\<close> case a zero \<^verbatim>\<open>complexity\<close> makes the remainder
  NaN, the comparison false and the pattern \<open>0.1\<close>.
\<close>

definition generateBass :: "string \<Rightarrow> real \<Rightarrow> real \<Rightarrow> real \<Rightarrow> real \<Rightarrow> rng \<Rightarrow> real \<times> rng" where
  "generateBass bType rootFreq time beat complexity g =
     (let bassFreq = rootFreq * 0.5 in
      if bType = ''bouncy'' then
        (let bouncePattern = (if sin (beat * pi * 2) > 0 then 1 else 0.3)
         in (0.4 * bouncePattern * generateWaveform bassFreq time Triangle, g))
      else if bType = ''melancholic'' then
        (let melancholyEnvelope = 0.4 + 0.3 * sin (time * 0.2);
             bassModulation = 1 + 0.1 * sin (time * 0.3)
         in (0.45 * melancholyEnvelope * generateWaveform (bassFreq * bassModulation) time Sine, g))
      else if bType = ''pounding'' then
        (let poundPattern =
               (if complexity \<noteq> 0 \<and> js_rem (of_int \<lfloor>beat * complexity\<rfloor>) complexity < 2
                then 1 else 0.1)
         in case generateNoise time g of
              (noise, g') \<Rightarrow>
                (0.6 * poundPattern * (generateWaveform bassFreq time Sawtooth + 0.3 * noise), g'))
      else if bType = ''gentle'' then
        (0.25 * (1 + 0.3 * sin (time * 0.5)) * generateWaveform bassFreq time Sine, g)
      else if bType = ''restless'' then
        (let restlessRate = 1 + 0.4 * sin (time * 1.5);
             restlessEnvelope = 0.35 + 0.15 * \<bar>sin (time * 2.3)\<bar>
         in (restlessEnvelope * generateWaveform (bassFreq * restlessRate) time Triangle, g))
      else if bType = ''soft'' then
        (0.2 * sin (time * 0.3 + pi / 4) * generateWaveform bassFreq time Sine, g)
      else if bType = ''jumping'' then
        (let jump = (if sin (beat * pi * 4) > 0.5 then 1 else 0.2)
         in (0.45 * jump * generateWaveform bassFreq time Triangle, g))
      else if bType = ''hollow'' then
        (0.3 * (1 - exp (- time * 0.1)) * generateWaveform (bassFreq * 0.7) time Triangle, g)
      else if bType = ''solid'' then
        (0.35 * generateWaveform bassFreq time Sawtooth, g)
      else if bType = ''warm'' then
        (0.3 * (1 + 0.2 * sin (time * 0.8)) * generateWaveform bassFreq time Sine, g)
      else
        (0.3 * generateWaveform bassFreq time Sawtooth, g))"

definition generateHarmony :: "string \<Rightarrow> real \<Rightarrow> real \<Rightarrow> real \<Rightarrow> real \<Rightarrow> real \<Rightarrow> real" where
  "generateHarmony harmonyType root' third fifth time tmp =
     (let harmonicRate = tmp / 120 in
      if harmonyType = ''bright'' then
        (let brightness = 0.3 + 0.2 * sin (time * harmonicRate)
         in brightness * (0.25 * generateWaveform root' time Triangle
                          + 0.2 * generateWaveform third time Triangle
                          + 0.15 * generateWaveform fifth time Triangle
                          + 0.1 * generateWaveform (root' * 2) time Sine))
      else if harmonyType = ''emotional'' then
        (let emotionalDepth = 0.25 + 0.15 * sin (time * 0.4);
             harmonyShift = 1 + 0.05 * sin (time * 0.6)
         in emotionalDepth * (0.8 * generateWaveform (root' * harmonyShift) time Sine
                              + 0.6 * generateWaveform (third * 0.97) time Sine
                              + 0.4 * generateWaveform (fifth * 0.95) time Triangle))
      else if harmonyType = ''powerful'' then
        (let power = 0.4 + 0.3 * \<bar>sin (time * harmonicRate * 2)\<bar>
         in power * (0.3 * generateWaveform root' time Sawtooth
                     + 0.25 * generateWaveform fifth time Sawtooth))
      else if harmonyType = ''peaceful'' then
        0.2 * sin (time * 0.3) * (generateWaveform root' time Sine
                                  + 0.6 * generateWaveform third time Sine)
      else if harmonyType = ''unsettled'' then
        (let unsettledShift = 1 + 0.2 * sin (time * 1.8);
             unsettledDepth = 0.28 + 0.12 * \<bar>sin (time * 2.1)\<bar>
         in unsettledDepth * (0.7 * generateWaveform (root' * unsettledShift) time Sine
                              + 0.5 * generateWaveform (third * 1.05) time Triangle
                              + 0.3 * generateWaveform (fifth * 0.98) time Sine))
      else if harmonyType = ''warm'' then
        0.18 * (1 + 0.4 * sin (time * 0.4))
          * (generateWaveform root' time Sine + 0.5 * generateWaveform third time Sine)
      else if harmonyType = ''vibrant'' then
        (let vibrance = 0.35 + 0.25 * sin (time * harmonicRate * 1.5)
         in vibrance * (generateWaveform root' time Triangle
                        + 0.8 * generateWaveform fifth time Triangle))
      else if harmonyType = ''nostalgic'' then
        0.2 * exp (- time * 0.05) * (generateWaveform (root' * 0.95) time Sine
                                     + 0.6 * generateWaveform (third * 0.98) time Sine)
      else if harmonyType = ''clear'' then
        0.25 * (generateWaveform root' time Triangle + 0.7 * generateWaveform fifth time Triangle)
      else if harmonyType = ''intimate'' then
        0.22 * (1 + 0.3 * sin (time * 0.6))
          * (generateWaveform root' time Sine + 0.8 * generateWaveform third time Sine)
      else
        0.2 * (generateWaveform root' time Triangle + 0.7 * generateWaveform third time Triangle))"

text \<open>
  \<^verbatim>\<open>scaleNotes[Math.floor(x % scaleNotes.length)]\<close>: the note at the computed position,
  \<^verbatim>\<open>undefined\<close> when the position is outside the array.
\<close>

definition noteAt :: "string option list \<Rightarrow> int \<Rightarrow> string option" where
  "noteAt notes j = (case elemAt notes j of Some n \<Rightarrow> n | None \<Rightarrow> None)"

definition melodyNote :: "string option list \<Rightarrow> real \<Rightarrow> string option" where
  "melodyNote notes x = noteAt notes \<lfloor>js_rem x (real (length notes))\<rfloor>"

definition generateMelody :: "string \<Rightarrow> string option list \<Rightarrow> real \<Rightarrow> real \<Rightarrow> real \<Rightarrow> real" where
  "generateMelody mStyle notes time tmp measure' =
     (let melodyRate = tmp / 120 in
      if mStyle = ''dancing'' then
        (let danceFreq = getFrequencyOf (melodyNote notes (time * melodyRate * 2)) 5;
             dance = 0.25 * (1 + 0.5 * sin (time * melodyRate * 3))
         in dance * generateWaveform danceFreq time Sine)
      else if mStyle = ''sorrowful'' then
        (let sorrowFreq = getFrequencyOf (melodyNote notes (time * melodyRate * 0.6)) 4;
             sorrow = 0.28 * (0.8 + 0.4 * sin (time * 0.3)) * (1 + 0.1 * sin (time * 1.2));
             bend = 1 + 0.08 * sin (time * 2.5)
         in sorrow * generateWaveform (sorrowFreq * bend) time Sine)
      else if mStyle = ''soaring'' then
        (let soarFreq = getFrequencyOf (melodyNote notes (time * melodyRate * 3))
                          (5 + js_rem (of_int \<lfloor>time / 4\<rfloor>) 2)
         in 0.3 * generateWaveform soarFreq time Sawtooth)
      else if mStyle = ''floating'' then
        (let floatFreq = getFrequencyOf (melodyNote notes (time * melodyRate * 0.8)) 4;
             float = 0.2 * (1 + 0.4 * sin (time * 0.3))
         in float * generateWaveform floatFreq time Sine)
      else if mStyle = ''uncertain'' then
        (let uncertainFreq =
               getFrequencyOf
                 (melodyNote notes (time * melodyRate * (1.2 + 0.5 * sin (time * 1.7)))) 4;
             uncertainty = 0.26 * (0.7 + 0.3 * sin (time * 1.9)) * (1 + 0.1 * sin (time * 3.1));
             waver = 1 + 0.05 * sin (time * 4.2)
         in uncertainty * generateWaveform (uncertainFreq * waver) time Sine)
      else if mStyle = ''lullaby'' then
        (let lullabyFreq = getFrequencyOf (melodyNote notes (time * melodyRate * 0.4)) 4
         in 0.15 * sin (time * 0.2) * generateWaveform lullabyFreq time Sine)
      else if mStyle = ''celebrating'' then
        (let celebFreq = getFrequencyOf (melodyNote notes (time * melodyRate * 2.5)) 5;
             celebration = 0.28 * (1 + 0.6 * sin (time * melodyRate * 2))
         in celebration * generateWaveform celebFreq time Triangle)
      else if mStyle = ''longing'' then
        (let longFreq = getFrequencyOf (melodyNote notes (time * melodyRate * 0.3)) 4;
             longing = 0.18 * (1 + sin (time * 0.1))
         in longing * generateWaveform longFreq time Sine)
      else if mStyle = ''precise'' then
        (let preciseFreq = getFrequencyOf (melodyNote notes (time * melodyRate)) 4
         in 0.22 * generateWaveform preciseFreq time Triangle)
      else if mStyle = ''tender'' then
        (let tenderFreq = getFrequencyOf (melodyNote notes (time * melodyRate * 0.7)) 4;
             tenderness = 0.2 * (1 + 0.3 * sin (time * 0.5))
         in tenderness * generateWaveform tenderFreq time Sine)
      else
        (let defaultFreq = getFrequencyOf (melodyNote notes (time * melodyRate)) 4
         in 0.2 * generateWaveform defaultFreq time Sine))"

subsection \<open>Effects chain\<close>

text \<open>
  One iteration of the \<^verbatim>\<open>for (const effect of effects)\<close> loop of \<^verbatim>\<open>applyMoodEffects\<close>:
  the \<^verbatim>\<open>switch\<close> on the effect name, acting on \<^verbatim>\<open>processed\<close> and on the random source.
  A name without a \<^verbatim>\<open>case\<close> changes nothing.
\<close>

definition applyEffect ::
  "real \<Rightarrow> real \<Rightarrow> real \<Rightarrow> real \<Rightarrow> string \<Rightarrow> real \<times> rng \<Rightarrow> real \<times> rng" where
  "applyEffect sample time rootFreq tmp effect st =
     (case st of (processed, g) \<Rightarrow>
      if effect = ''sparkle'' then
        (processed + 0.05 * sin (time * 8) * generateWaveform (rootFreq * 4) time Sine, g)
      else if effect = ''bounce'' then
        (processed * (1 + 0.1 * \<bar>sin (time * tmp / 30)\<bar>), g)
      else if effect = ''reverb'' then
        (processed + 0.15 * sample * sin (time * 0.3 - pi / 3)
                   + 0.08 * sample * sin (time * 0.7 - pi / 2), g)
      else if effect = ''tears'' then
        (let tearDrop = sin (time * 0.8) * exp (- (js_rem time 4 - 2) * (js_rem time 4 - 2))
         in (processed + 0.12 * tearDrop * generateWaveform (rootFreq * 1.5) time Sine, g))
      else if effect = ''distortion'' then
        (tanh (processed * 1.5) * 0.8, g)
      else if effect = ''pulse'' then
        (processed * (1 + 0.3 * sin (time * tmp / 15)), g)
      else if effect = ''wave'' then
        (processed + 0.05 * sin (time * 0.3) * sample, g)
      else if effect = ''breath'' then
        (processed * (1 + 0.1 * sin (time * 0.8)), g)
      else if effect = ''flutter'' then
        (let flutter = 1 + 0.08 * sin (time * 6.5) in (processed * flutter, g))
      else if effect = ''hesitate'' then
        (let hesitation = sin (time * 1.3)
         in if hesitation > 0.8 then (processed * 0.6, g)
            else if hesitation < - 0.8 then (processed * 1.2, g)
            else (processed, g))
      else if effect = ''whisper'' then
        (processed * (0.7 + 0.2 * sin (time * 0.2)), g)
      else if effect = ''glow'' then
        (processed + 0.03 * sin (time * 0.4) * generateWaveform (rootFreq * 2) time Sine, g)
      else if effect = ''burst'' then
        (let burstTime = js_rem time 2
         in if burstTime < 0.1 then (processed * (1 + burstTime * 3), g) else (processed, g))
      else if effect = ''fizz'' then
        (case Math_random g of
           (r, g') \<Rightarrow> (processed + 0.04 * (r - 0.5) * sin (time * 10), g'))
      else if effect = ''drift'' then
        (processed + 0.08 * sample * sin (time * 0.1), g)
      else if effect = ''memory'' then
        (processed + 0.06 * sample * sin (time * 0.05 - pi / 2), g)
      else if effect = ''focus'' then
        ((if processed > 0 then min processed 0.8 else max processed (- 0.8)), g)
      else if effect = ''sharp'' then
        (processed * (1 + 0.05 * sgn processed), g)
      else if effect = ''caress'' then
        (processed * (1 + 0.2 * sin (time * 0.7)), g)
      else if effect = ''velvet'' then
        (sgn processed * \<bar>processed\<bar> powr 0.8, g)
      else (processed, g))"

fun applyEffects ::
  "real \<Rightarrow> real \<Rightarrow> real \<Rightarrow> real \<Rightarrow> string list \<Rightarrow> real \<times> rng \<Rightarrow> real \<times> rng" where
  "applyEffects sample time rootFreq tmp [] st = st"
| "applyEffects sample time rootFreq tmp (effect # rest) st =
     applyEffects sample time rootFreq tmp rest (applyEffect sample time rootFreq tmp effect st)"

definition applyMoodEffects ::
  "real \<Rightarrow> string list \<Rightarrow> real \<Rightarrow> real \<Rightarrow> real \<Rightarrow> rng \<Rightarrow> real \<times> rng" where
  "applyMoodEffects sample effs time rootFreq tmp g =
     applyEffects sample time rootFreq tmp effs (sample, g)"

subsection \<open>Render loop\<close>

record AudioBuffer =
  numberOfChannels :: nat
  sampleRate :: nat
  leftChannel :: "real list"
  rightChannel :: "real list"

definition duration :: nat where
  "duration = 30"

text \<open>
  The body of the sample loop of \<^verbatim>\<open>generateAudioFromMood\<close> for index \<open>i\<close>, up to the
  value written to the left channel. When \<^verbatim>\<open>getMoodVibe\<close> returned an inherited property,
  the fields \<^verbatim>\<open>bassType\<close>, \<^verbatim>\<open>harmony\<close> and \<^verbatim>\<open>melodyStyle\<close> are \<^verbatim>\<open>undefined\<close>, the three
  generators take their default branches, and iterating \<^verbatim>\<open>moodVibe.effects\<close> in
  \<^verbatim>\<open>applyMoodEffects\<close> throws a TypeError.
\<close>

definition renderSample ::
  "MusicParams \<Rightarrow> nat \<Rightarrow> MoodVibe property \<Rightarrow> nat \<Rightarrow> rng \<Rightarrow> error + real \<times> rng" where
  "renderSample params rate moodVibe i g =
     (let notes = scaleNotes (key params) (scale params);
          beatLength = 60 / tempo params;
          measureLength = beatLength * 4;
          time = real i / real rate;
          currentMeasure = js_rem_int \<lfloor>time / measureLength\<rfloor> 4;
          beatInMeasure = js_rem time measureLength / beatLength;
          currentChord = elemAt (chordProgression params) currentMeasure;
          root' = getFrequencyOf
                    (case currentChord of Some c \<Rightarrow> noteAt notes c | None \<Rightarrow> None) 3;
          third = getFrequencyOf
                    (case currentChord of
                       Some c \<Rightarrow> noteAt notes (js_rem_int (c + 2) (int (length notes)))
                     | None \<Rightarrow> None) 3;
          fifth = getFrequencyOf
                    (case currentChord of
                       Some c \<Rightarrow> noteAt notes (js_rem_int (c + 4) (int (length notes)))
                     | None \<Rightarrow> None) 3
      in case moodVibe of
           Inherited _ \<Rightarrow> Inl TypeError
         | Own v \<Rightarrow>
             (case generateBass (bassType v) root' time beatInMeasure
                     (real (rhythmComplexity v)) g of
                (bass, g1) \<Rightarrow>
                  (let sample0 = 0 + bass
                         + generateHarmony (harmony v) root' third fifth time (tempo params)
                         + generateMelody (melodyStyle v) notes time (tempo params)
                             (of_int currentMeasure)
                   in case applyMoodEffects sample0 (effects v) time root' (tempo params) g1 of
                        (sample1, g2) \<Rightarrow>
                          (let envelope =
                                 (if time < 2 then time / 2
                                  else if time > real duration - 3 then (real duration - time) / 3
                                  else 1);
                               sample2 = sample1 * envelope;
                               sample3 = (if scale params = Minor then sample2 * 0.7 else sample2)
                           in Inr (tanh (sample3 * 0.8) * 0.9, g2)))))"

text \<open>
  The \<^verbatim>\<open>for (let i = 0; i < numSamples; i++)\<close> loop: the state is the two channel arrays and
  the random source; a thrown error ends the loop.
\<close>

function renderLoop ::
  "MusicParams \<Rightarrow> nat \<Rightarrow> MoodVibe property \<Rightarrow> nat \<Rightarrow> nat \<Rightarrow> real list \<times> real list \<times> rng
    \<Rightarrow> error + real list \<times> real list \<times> rng" where
  "renderLoop params rate moodVibe numSamples i st =
     (if i < numSamples then
        (case st of (left, right, g) \<Rightarrow>
           (case renderSample params rate moodVibe i g of
              Inl e \<Rightarrow> Inl e
            | Inr (sample, g') \<Rightarrow>
                renderLoop params rate moodVibe numSamples (Suc i)
                  (left[i := sample], right[i := sample * 0.95], g')))
      else Inr st)"
  by pat_completeness auto
termination
  by (relation "measure (\<lambda>(params, rate, moodVibe, numSamples, i, st). numSamples - i)") auto

declare renderLoop.simps [simp del]

text \<open>
  \<^verbatim>\<open>generateAudioFromMood\<close>, for a context whose sample rate is \<open>rate\<close>. The buffer created
  by \<^verbatim>\<open>createBuffer(2, numSamples, sampleRate)\<close> starts with all samples zero. A rejected
  promise is an \<open>Inl\<close>.
\<close>

definition generateAudioFromMood :: "nat \<Rightarrow> rng \<Rightarrow> MusicParams \<Rightarrow> error + AudioBuffer" where
  "generateAudioFromMood rate g params =
     (let numSamples = rate * duration;
          moodVibe = getMoodVibe (rhythm params) (tempo params) (scale_name (scale params))
      in case renderLoop params rate moodVibe numSamples 0
                (replicate numSamples 0, replicate numSamples 0, g) of
           Inl e \<Rightarrow> Inl e
         | Inr (left, right, _) \<Rightarrow>
             Inr \<lparr>numberOfChannels = 2, sampleRate = rate,
                  leftChannel = left, rightChannel = right\<rparr>)"

subsection \<open>Server: mood detection\<close>

text \<open>
  Strings are lists of 8-bit characters, read as the code units U+0000 to U+00FF.

  \<^verbatim>\<open>toLowerCase\<close> on these: the letters A to Z, and U+00C0 to U+00DE except the
  multiplication sign U+00D7, move up by 32; every other character stays.
\<close>

definition toLowerChar :: "char \<Rightarrow> char" where
  "toLowerChar c =
     (let n = (of_char c :: nat)
      in if (65 \<le> n \<and> n \<le> 90) \<or> (192 \<le> n \<and> n \<le> 222 \<and> n \<noteq> 215)
         then char_of (n + 32) else c)"

text \<open>
  \<^verbatim>\<open>toUpperCase\<close> of a one-character string, as a list of Unicode code points, since the
  result can leave the 8-bit range: the letters a to z, and U+00E0 to U+00FE except the
  division sign U+00F7, move down by 32; the sharp s U+00DF becomes \<^verbatim>\<open>SS\<close>, U+00FF becomes
  U+0178 and the micro sign U+00B5 becomes U+039C; every other character stays.
\<close>

definition toUpperCodes :: "char \<Rightarrow> nat list" where
  "toUpperCodes c =
     (let n = (of_char c :: nat)
      in if (97 \<le> n \<and> n \<le> 122) \<or> (224 \<le> n \<and> n \<le> 254 \<and> n \<noteq> 247) then [n - 32]
         else if n = 223 then [83, 83]
         else if n = 255 then [376]
         else if n = 181 then [924]
         else [n])"

definition toLowerCase :: "string \<Rightarrow> string" where
  "toLowerCase s = map toLowerChar s"

text \<open>
  The class \<^verbatim>\<open>\s\<close> below U+0100: tab, line feed, vertical tab, form feed, carriage
  return, space and the no-break space U+00A0.
\<close>

definition isWhitespace :: "char \<Rightarrow> bool" where
  "isWhitespace c = ((of_char c :: nat) \<in> {9, 10, 11, 12, 13, 32, 160})"

text \<open>
  \<^verbatim>\<open>(lowerText.match(new RegExp(keyword, 'g')) || []).length\<close> for a keyword of plain letters: the
  number of occurrences found scanning left to right, each search resuming after the
  previous match. The empty pattern matches at every position.
\<close>

function countMatches :: "string \<Rightarrow> string \<Rightarrow> nat" where
  "countMatches kw str =
     (if kw = [] then length str + 1
      else if str = [] then 0
      else if take (length kw) str = kw then 1 + countMatches kw (drop (length kw) str)
      else countMatches kw (tl str))"
  by pat_completeness auto
termination
  by (relation "measure (\<lambda>(kw, str). length str)") auto

declare countMatches.simps [simp del]

text \<open>
  \<^verbatim>\<open>text.split(/\s+/).length\<close>: one more than the number of maximal runs of whitespace.
\<close>

fun whitespaceRuns :: "bool \<Rightarrow> string \<Rightarrow> nat" where
  "whitespaceRuns inRun [] = 0"
| "whitespaceRuns inRun (c # cs) =
     (if isWhitespace c then (if inRun then 0 else 1) + whitespaceRuns True cs
      else whitespaceRuns False cs)"

definition splitLength :: "string \<Rightarrow> nat" where
  "splitLength s = whitespaceRuns False s + 1"

text \<open>\<^verbatim>\<open>Math.round\<close>: the nearest integer, halves upwards.\<close>

definition Math_round :: "real \<Rightarrow> int" where
  "Math_round x = \<lfloor>x + 1 / 2\<rfloor>"

definition MOODS :: "string list" where
  "MOODS = [''happy'', ''sad'', ''energetic'', ''calm'', ''anxious'', ''peaceful'', ''excited'',
            ''melancholy'', ''focused'', ''romantic'']"

definition moodKeywords :: "(string \<times> string list) list" where
  "moodKeywords =
    [(''happy'', [''happy'', ''joy'', ''excited'', ''cheerful'', ''glad'', ''pleased'',
                  ''delighted'', ''elated'', ''upbeat'', ''positive'']),
     (''sad'', [''sad'', ''depressed'', ''down'', ''melancholy'', ''blue'', ''unhappy'',
                ''sorrowful'', ''gloomy'', ''dejected'']),
     (''energetic'', [''energetic'', ''pumped'', ''hyper'', ''active'', ''dynamic'', ''vigorous'',
                      ''lively'', ''spirited'']),
     (''calm'', [''calm'', ''peaceful'', ''relaxed'', ''serene'', ''tranquil'', ''quiet'', ''still'',
                 ''composed'']),
     (''anxious'', [''anxious'', ''worried'', ''nervous'', ''stressed'', ''tense'', ''uneasy'',
                    ''concerned'', ''apprehensive'']),
     (''peaceful'', [''peaceful'', ''zen'', ''meditation'', ''mindful'', ''harmony'', ''balance'',
                     ''serenity'']),
     (''excited'', [''thrilled'', ''ecstatic'', ''enthusiastic'', ''eager'', ''animated'',
                    ''exuberant'']),
     (''melancholy'', [''nostalgic'', ''wistful'', ''pensive'', ''reflective'', ''bittersweet'']),
     (''focused'', [''focused'', ''concentrated'', ''determined'', ''motivated'', ''driven'',
                    ''productive'']),
     (''romantic'', [''love'', ''romantic'', ''affectionate'', ''tender'', ''passionate'',
                     ''intimate''])]"

record MoodDetection =
  mood :: string
  confidence :: int

text \<open>The \<^verbatim>\<open>scores\<close> record after the \<^verbatim>\<open>forEach\<close>, as its entries in insertion order.\<close>

definition moodScores :: "string \<Rightarrow> (string \<times> nat) list" where
  "moodScores lowerText =
     map (\<lambda>(m, keywords).
            (m, foldl (\<lambda>score keyword. score + countMatches keyword lowerText) 0 keywords))
         moodKeywords"

text \<open>
  \<^verbatim>\<open>Object.entries(scores).reduce((a, b) => scores[a[0]] > scores[b[0]] ? a : b)\<close>: without
  an initial value the first entry starts the reduction; the table has ten entries.
\<close>

definition topMoodOf :: "(string \<times> nat) list \<Rightarrow> string \<times> nat" where
  "topMoodOf scores =
     foldl (\<lambda>a b. if the (map_of scores (fst a)) > the (map_of scores (fst b)) then a else b)
           (hd scores) (tl scores)"

definition analyzeMoodFromText :: "string \<Rightarrow> MoodDetection" where
  "analyzeMoodFromText str =
     (let lowerText = toLowerCase str;
          scores = moodScores lowerText;
          topMood = topMoodOf scores;
          totalWords = splitLength str;
          conf = min 95 (max 30 (real (snd topMood) / real totalWords * 100 + 30))
      in \<lparr>mood = (if snd topMood > 0 then fst topMood else ''calm''),
          confidence = Math_round conf\<rparr>)"

subsection \<open>Server: the generate-music route\<close>

definition moodParams :: "(string \<times> MusicParams) list" where
  "moodParams =
    [(''happy'', \<lparr>tempo = 120, key = ''C'', scale = Major, rhythm = ''upbeat''\<rparr>),
     (''sad'', \<lparr>tempo = 60, key = ''D'', scale = Minor, rhythm = ''slow''\<rparr>),
     (''energetic'', \<lparr>tempo = 140, key = ''E'', scale = Major, rhythm = ''driving''\<rparr>),
     (''calm'', \<lparr>tempo = 70, key = ''F'', scale = Major, rhythm = ''flowing''\<rparr>),
     (''anxious'', \<lparr>tempo = 100, key = ''G'', scale = Minor, rhythm = ''irregular''\<rparr>),
     (''peaceful'', \<lparr>tempo = 65, key = ''A'', scale = Major, rhythm = ''gentle''\<rparr>),
     (''excited'', \<lparr>tempo = 130, key = ''B'', scale = Major, rhythm = ''energetic''\<rparr>),
     (''melancholy'', \<lparr>tempo = 55, key = ''Em'', scale = Minor, rhythm = ''contemplative''\<rparr>),
     (''focused'', \<lparr>tempo = 90, key = ''Am'', scale = Minor, rhythm = ''steady''\<rparr>),
     (''romantic'', \<lparr>tempo = 75, key = ''G'', scale = Major, rhythm = ''romantic''\<rparr>)]"

definition generateMusicParameters :: "string \<Rightarrow> MusicParams property" where
  "generateMusicParameters m =
     (case map_of moodParams m of
        Some p \<Rightarrow> Own p
      | None \<Rightarrow>
          if m \<in> set objectPrototypeProperties then Inherited m
          else Own (the (map_of moodParams ''calm'')))"

text \<open>The emoji strings of \<^verbatim>\<open>getMoodEmoji\<close>, as lists of Unicode code points.\<close>

definition moodEmojis :: "(string \<times> nat list) list" where
  "moodEmojis =
    [(''happy'', [128522]), (''sad'', [128546]), (''energetic'', [9889]), (''calm'', [129496]),
     (''anxious'', [128560]), (''peaceful'', [9774, 65039]), (''excited'', [127881]),
     (''melancholy'', [127769]), (''focused'', [127919]), (''romantic'', [128149])]"

definition getMoodEmoji :: "string \<Rightarrow> nat list property" where
  "getMoodEmoji m =
     (case map_of moodEmojis m of
        Some e \<Rightarrow> Own e
      | None \<Rightarrow> if m \<in> set objectPrototypeProperties then Inherited m else Own [128522])"

definition titles :: "string list" where
  "titles = [''Melody #1'', ''Vibes #2'', ''Symphony'', ''Harmony'', ''Rhythm'', ''Composition'',
             ''Theme'', ''Ballad'', ''Tune'', ''Song'', ''Piece'', ''Track'']"

definition getRandomTitle :: "rng \<Rightarrow> string option \<times> rng" where
  "getRandomTitle g =
     (case Math_random g of (r, g') \<Rightarrow> (elemAt titles \<lfloor>r * real (length titles)\<rfloor>, g'))"

text \<open>
  \<^verbatim>\<open>str.charAt(0).toUpperCase() + str.slice(1)\<close>, as a list of code points.
\<close>

definition capitalizeFirst :: "string \<Rightarrow> nat list" where
  "capitalizeFirst str = concat (map toUpperCodes (charAt0 str)) @ map of_char (drop 1 str)"

text \<open>
  A stored track (\<^verbatim>\<open>MusicTrack\<close>; the field names carry the prefix \<open>track_\<close>) and the JSON
  body of a successful response (prefix \<open>res_\<close>). The title and the emoji are lists of
  code points.
\<close>

record MusicTrack =
  track_id :: string
  track_title :: "nat list"
  track_mood :: string
  track_moodEmoji :: "nat list property"
  track_duration :: int
  track_audioData :: "string option"
  track_userId :: "string option"
  track_createdAt :: nat

record GenerateMusicResponse =
  res_trackId :: string
  res_title :: "nat list"
  res_mood :: string
  res_emoji :: "nat list property"
  res_duration :: int
  res_musicParams :: "MusicParams property"

datatype route_result = Json GenerateMusicResponse | Status400 | Status500

text \<open>
  \<^verbatim>\<open>${capitalizeFirst(mood)} ${getRandomTitle()}\<close>; an \<^verbatim>\<open>undefined\<close> title would print as
  the word \<^verbatim>\<open>undefined\<close>.
\<close>

definition trackTitle :: "string \<Rightarrow> string option \<Rightarrow> nat list" where
  "trackTitle m t =
     capitalizeFirst m @ map of_char '' ''
       @ map of_char (case t of Some s \<Rightarrow> s | None \<Rightarrow> ''undefined'')"

text \<open>
  The handler of \<^verbatim>\<open>POST /api/generate-music\<close> on the in-memory storage. Its inputs are
  the \<^verbatim>\<open>mood\<close> of the request body, the random source, the identifier that
  \<^verbatim>\<open>randomUUID()\<close> returns and the current time; \<^verbatim>\<open>moodSelectSchema.parse\<close> rejects a mood
  outside \<^verbatim>\<open>MOODS\<close> with a ZodError, answered by status 400.
\<close>

definition generateMusicRoute ::
  "string \<Rightarrow> rng \<Rightarrow> string \<Rightarrow> nat \<Rightarrow> (string \<rightharpoonup> MusicTrack)
    \<Rightarrow> route_result \<times> (string \<rightharpoonup> MusicTrack) \<times> rng" where
  "generateMusicRoute m g uuid now musicTracks =
     (if m \<notin> set MOODS then (Status400, musicTracks, g)
      else
        (let musicParams = generateMusicParameters m in
         case getRandomTitle g of
           (t, g1) \<Rightarrow>
             (case Math_random g1 of
                (r, g2) \<Rightarrow>
                  (let track = \<lparr>track_id = uuid, track_title = trackTitle m t, track_mood = m,
                                 track_moodEmoji = getMoodEmoji m,
                                 track_duration = \<lfloor>r * 30\<rfloor> + 30,
                                 track_audioData = None, track_userId = None,
                                 track_createdAt = now\<rparr>
                   in (Json \<lparr>res_trackId = track_id track, res_title = track_title track,
                              res_mood = track_mood track, res_emoji = track_moodEmoji track,
                              res_duration = track_duration track,
                              res_musicParams = musicParams\<rparr>,
                       musicTracks(uuid \<mapsto> track), g2)))))"

text \<open>Every draw of \<^verbatim>\<open>Math.random()\<close> lies in \<open>[0, 1)\<close>.\<close>

definition validRandom :: "rng \<Rightarrow> bool" where
  "validRandom g = (\<forall>r \<in> sset g. 0 \<le> r \<and> r < 1)"

section \<open>Properties\<close>

subsection \<open>Music theory\<close>

lemma noteMap_length: "length noteMap = 12"
  by (simp add: noteMap_def)

lemma indexOf_noteMap_nth:
  "i < 12 \<Longrightarrow> indexOf noteMap (noteMap ! i) = int i"
proof -
  assume "i < 12"
  then have "i = 0 \<or> i = 1 \<or> i = 2 \<or> i = 3 \<or> i = 4 \<or> i = 5 \<or> i = 6
    \<or> i = 7 \<or> i = 8 \<or> i = 9 \<or> i = 10 \<or> i = 11"
    by arith
  then show ?thesis
    by (elim disjE) (simp_all add: noteMap_def indexOf_def)
qed

text \<open>
  C2: for every note of the chromatic sequence, at position \<open>i\<close>, and every octave,
  \<open>getFrequency\<close> is \<open>440 * 2^((i - 9)/12 + (octave - 4))\<close>: the code's exponent
  \<open>(i - 9 + (octave - 4) * 12) / 12\<close> equals the spec's. In particular A4 is 440.
\<close>

theorem getFrequency_equal_temperament:
  "(\<forall>i < 12. \<forall>octave.
      getFrequency (noteMap ! i) octave = 440 * 2 powr ((real i - 9) / 12 + (octave - 4))
      \<and> 440 * 2 powr ((real i - 9 + (octave - 4) * 12) / 12)
          = 440 * 2 powr ((real i - 9) / 12 + (octave - 4)))
   \<and> getFrequency ''A'' 4 = 440"
proof -
  have ex: "(x - 9 + (octave - 4) * 12) / 12 = (x - 9) / 12 + (octave - 4)" for x octave :: real
    by (simp add: field_simps)
  have A: "getFrequency ''A'' 4 = 440"
    by (simp add: getFrequency_def frequencyAt_def indexOf_def noteMap_def)
  have "getFrequency (noteMap ! i) octave = 440 * 2 powr ((real i - 9) / 12 + (octave - 4))"
    if "i < 12" for i octave
    using that
    by (simp add: getFrequency_def frequencyAt_def indexOf_noteMap_nth
        diff_divide_distrib add_divide_distrib)
  moreover have "440 * 2 powr ((real i - 9 + (octave - 4) * 12) / 12)
      = 440 * 2 powr ((real i - 9) / 12 + (octave - 4))" for i octave
    by (simp only: ex)
  ultimately show ?thesis using A by blast
qed

theorem getFrequency_equal_temperament_witness:
  "(9::nat) < 12 \<and> noteMap ! 9 = ''A''
   \<and> getFrequency (noteMap ! 9) 5 = 440 * 2 powr ((real 9 - 9) / 12 + (5 - 4))
   \<and> getFrequency ''A'' 5 = 880"
proof -
  have n: "noteMap ! 9 = ''A''" by (simp add: noteMap_def)
  have "getFrequency (noteMap ! 9) 5 = 440 * 2 powr ((real 9 - 9) / 12 + (5 - 4))"
    using getFrequency_equal_temperament by simp
  then show ?thesis using n by simp
qed

lemma indexOf_from_absent: "x \<notin> set xs \<Longrightarrow> indexOf_from xs x i = - 1"
  by (induction xs arbitrary: i) auto

lemma indexOf_absent: "x \<notin> set xs \<Longrightarrow> indexOf xs x = - 1"
  by (simp add: indexOf_def indexOf_from_absent)

text \<open>
  C3 as stated fails: a note outside the chromatic sequence is not rejected. At the
  note \<open>H\<close> the call completes with the number computed from index \<open>-1\<close>.
\<close>

theorem getFrequency_unknown_note_counterexample:
  "''H'' \<notin> set noteMap
   \<and> getFrequency_outcome ''H'' 4 \<noteq> Inl ConfigurationError
   \<and> getFrequency_outcome ''H'' 4 = Inr (440 * 2 powr (- 10 / 12))"
  by (simp add: getFrequency_outcome_def getFrequency_def frequencyAt_def indexOf_def noteMap_def)

text \<open>
  C3, amended: for every note string outside the twelve chromatic names \<open>getFrequency\<close>
  raises no error; \<open>indexOf\<close> yields \<open>-1\<close> and the result is
  \<open>440 * 2^((-1 - 9 + (octave - 4) * 12) / 12)\<close>.
\<close>

theorem getFrequency_unknown_note:
  "note \<notin> set noteMap \<Longrightarrow>
     indexOf noteMap note = - 1
     \<and> getFrequency_outcome note octave
         = Inr (440 * 2 powr ((- 1 - 9 + (octave - 4) * 12) / 12))"
  by (simp add: getFrequency_outcome_def getFrequency_def frequencyAt_def indexOf_absent)

theorem getFrequency_unknown_note_witness:
  "''H'' \<notin> set noteMap \<and> indexOf noteMap ''H'' = - 1
   \<and> getFrequency_outcome ''H'' 3 = Inr (440 * 2 powr ((- 1 - 9 + (3 - 4) * 12) / 12))"
proof -
  have h: "''H'' \<notin> set noteMap" by (simp add: noteMap_def)
  show ?thesis using h getFrequency_unknown_note [OF h, of 3] by simp
qed

text \<open>
  C4: the chord progression is \<open>[0,3,4,0]\<close> for major and \<open>[0,2,5,0]\<close> for minor; it is
  a function of the mode alone (key, tempo and rhythm of the parameters play no part) and
  has exactly four entries.
\<close>

theorem chordProgression_by_mode:
  "chordProgression p = (case scale p of Major \<Rightarrow> [0, 3, 4, 0] | Minor \<Rightarrow> [0, 2, 5, 0])
   \<and> length (chordProgression p) = 4
   \<and> getChordProgression ''major'' = [0, 3, 4, 0]
   \<and> getChordProgression ''minor'' = [0, 2, 5, 0]"
  by (cases "scale p") (simp_all add: chordProgression_def getChordProgression_def)

lemma noteMap_cases:
  "k \<in> set noteMap \<Longrightarrow>
     k = ''C'' \<or> k = ''C#'' \<or> k = ''D'' \<or> k = ''D#'' \<or> k = ''E'' \<or> k = ''F''
     \<or> k = ''F#'' \<or> k = ''G'' \<or> k = ''G#'' \<or> k = ''A'' \<or> k = ''A#'' \<or> k = ''B''"
  by (simp add: noteMap_def)

text \<open>
  C5 as stated fails at the sharp roots: the claim builds the scale from the chromatic
  index of the root, the code from the index of the first character of the key. For the
  root \<open>C#\<close> (index 1) the claim's scale is \<open>C#, D#, F, F#, G#, A#, C\<close>; the code returns
  the scale of \<open>C\<close>, which does not even hold the root.
\<close>

theorem scaleNotes_sharp_root_counterexample:
  "''C#'' \<in> set noteMap
   \<and> indexOf noteMap ''C#'' = 1
   \<and> indexOf noteMap (charAt0 ''C#'') = 0
   \<and> buildScale_spec ''C#'' Major = [''C#'', ''D#'', ''F'', ''F#'', ''G#'', ''A#'', ''C'']
   \<and> scaleNotes ''C#'' Major
       = [Some ''C'', Some ''D'', Some ''E'', Some ''F'', Some ''G'', Some ''A'', Some ''B'']
   \<and> scaleNotes ''C#'' Major \<noteq> map Some (buildScale_spec ''C#'' Major)
   \<and> Some ''C#'' \<notin> set (scaleNotes ''C#'' Major)"
  by (simp add: scaleNotes_def buildScale_spec_def charAt0_def indexOf_def noteMap_def
      js_rem_int_def elemAt_def)

text \<open>
  C5, amended: for every root among the twelve chromatic names and either mode, the code
  builds the scale by adding the mode's interval pattern, modulo 12, to the chromatic index
  of the first character of the root (for a sharp root, the index of its natural note). The
  result has exactly seven note names, pairwise distinct; for the seven natural roots it
  is the scale built from the root's own chromatic index.
\<close>

theorem scaleNotes_seven_distinct:
  assumes "k \<in> set noteMap"
  shows "length (scaleNotes k m) = 7 \<and> distinct (scaleNotes k m)
         \<and> set (scaleNotes k m) \<subseteq> Some ` set noteMap
         \<and> scaleNotes k m = map Some (buildScale_spec (charAt0 k) m)
         \<and> (k \<in> set [''C'', ''D'', ''E'', ''F'', ''G'', ''A'', ''B'']
              \<longrightarrow> scaleNotes k m = map Some (buildScale_spec k m))"
  using noteMap_cases [OF assms]
  by (cases m; elim disjE)
     (simp_all add: scaleNotes_def buildScale_spec_def charAt0_def indexOf_def noteMap_def
        js_rem_int_def elemAt_def)

theorem scaleNotes_seven_distinct_witness:
  "''C#'' \<in> set noteMap \<and> length (scaleNotes ''C#'' Major) = 7
   \<and> distinct (scaleNotes ''C#'' Major)
   \<and> scaleNotes ''C#'' Major = map Some (buildScale_spec ''C'' Major)
   \<and> ''D'' \<in> set noteMap \<and> length (scaleNotes ''D'' Minor) = 7
   \<and> distinct (scaleNotes ''D'' Minor)
   \<and> scaleNotes ''D'' Minor = map Some (buildScale_spec ''D'' Minor)
   \<and> scaleNotes ''D'' Minor
       = [Some ''D'', Some ''E'', Some ''F'', Some ''G'', Some ''A'', Some ''A#'', Some ''C'']"
proof -
  have h1: "''C#'' \<in> set noteMap" and h2: "''D'' \<in> set noteMap"
    by (simp_all add: noteMap_def)
  have c: "charAt0 ''C#'' = ''C''" by (simp add: charAt0_def)
  have n: "''D'' \<in> set [''C'', ''D'', ''E'', ''F'', ''G'', ''A'', ''B'']" by simp
  have d: "scaleNotes ''D'' Minor
       = [Some ''D'', Some ''E'', Some ''F'', Some ''G'', Some ''A'', Some ''A#'', Some ''C'']"
    by (simp add: scaleNotes_def charAt0_def indexOf_def noteMap_def js_rem_int_def elemAt_def)
  from scaleNotes_seven_distinct [OF h1, of Major, unfolded c]
  have 1: "length (scaleNotes ''C#'' Major) = 7" "distinct (scaleNotes ''C#'' Major)"
    "scaleNotes ''C#'' Major = map Some (buildScale_spec ''C'' Major)"
    by blast+
  from scaleNotes_seven_distinct [OF h2, of Minor] n
  have 2: "length (scaleNotes ''D'' Minor) = 7" "distinct (scaleNotes ''D'' Minor)"
    "scaleNotes ''D'' Minor = map Some (buildScale_spec ''D'' Minor)"
    by blast+
  from h1 h2 1 2 d show ?thesis by blast
qed

subsection \<open>Mood vibe table\<close>

text \<open>The ten entries of the table, and the fallback for a name that nothing defines.\<close>

lemma getMoodVibe_table:
  "getMoodVibe ''upbeat'' t s = Own \<lparr>bassType = ''bouncy'', melodyStyle = ''dancing'',
      harmony = ''bright'', effects = [''sparkle'', ''bounce''], rhythmComplexity = 4\<rparr>"
  "getMoodVibe ''slow'' t s = Own \<lparr>bassType = ''melancholic'', melodyStyle = ''sorrowful'',
      harmony = ''emotional'', effects = [''reverb'', ''tears''], rhythmComplexity = 1\<rparr>"
  "getMoodVibe ''driving'' t s = Own \<lparr>bassType = ''pounding'', melodyStyle = ''soaring'',
      harmony = ''powerful'', effects = [''distortion'', ''pulse''], rhythmComplexity = 8\<rparr>"
  "getMoodVibe ''flowing'' t s = Own \<lparr>bassType = ''gentle'', melodyStyle = ''floating'',
      harmony = ''peaceful'', effects = [''wave'', ''breath''], rhythmComplexity = 2\<rparr>"
  "getMoodVibe ''irregular'' t s = Own \<lparr>bassType = ''restless'', melodyStyle = ''uncertain'',
      harmony = ''unsettled'', effects = [''flutter'', ''hesitate''], rhythmComplexity = 5\<rparr>"
  "getMoodVibe ''gentle'' t s = Own \<lparr>bassType = ''soft'', melodyStyle = ''lullaby'',
      harmony = ''warm'', effects = [''whisper'', ''glow''], rhythmComplexity = 1\<rparr>"
  "getMoodVibe ''energetic'' t s = Own \<lparr>bassType = ''jumping'', melodyStyle = ''celebrating'',
      harmony = ''vibrant'', effects = [''burst'', ''fizz''], rhythmComplexity = 6\<rparr>"
  "getMoodVibe ''contemplative'' t s = Own \<lparr>bassType = ''hollow'', melodyStyle = ''longing'',
      harmony = ''nostalgic'', effects = [''drift'', ''memory''], rhythmComplexity = 1\<rparr>"
  "getMoodVibe ''steady'' t s = Own \<lparr>bassType = ''solid'', melodyStyle = ''precise'',
      harmony = ''clear'', effects = [''focus'', ''sharp''], rhythmComplexity = 2\<rparr>"
  "getMoodVibe ''romantic'' t s = Own \<lparr>bassType = ''warm'', melodyStyle = ''tender'',
      harmony = ''intimate'', effects = [''caress'', ''velvet''], rhythmComplexity = 3\<rparr>"
  by (simp_all add: getMoodVibe_def vibes_def)

lemma getMoodVibe_fallback:
  "r \<notin> fst ` set vibes \<Longrightarrow> r \<notin> set objectPrototypeProperties \<Longrightarrow>
     getMoodVibe r t s = getMoodVibe ''flowing'' t s"
proof -
  assume a: "r \<notin> fst ` set vibes" and b: "r \<notin> set objectPrototypeProperties"
  from a have "map_of vibes r = None" by (simp add: map_of_eq_None_iff)
  moreover have "map_of vibes ''flowing'' \<noteq> None" by (simp add: vibes_def)
  ultimately show ?thesis using b by (auto simp: getMoodVibe_def)
qed

text \<open>
  C6: the lookup reproduces the ten-entry table (\<open>getMoodVibe_table\<close>) and falls back to
  the \<open>flowing\<close> profile for a name that neither the table nor \<open>Object.prototype\<close>
  defines (\<open>getMoodVibe_fallback\<close>). For the rhythm string \<open>constructor\<close>, which is
  outside the ten identifiers, the lookup finds the inherited property and does not
  return the \<open>flowing\<close> profile.
\<close>

theorem getMoodVibe_inherited_property:
  "''constructor'' \<notin> fst ` set vibes
   \<and> getMoodVibe ''constructor'' 120 ''major'' = Inherited ''constructor''
   \<and> getMoodVibe ''constructor'' 120 ''major'' \<noteq> getMoodVibe ''flowing'' 120 ''major''"
  by (simp add: getMoodVibe_def vibes_def objectPrototypeProperties_def)

subsection \<open>Bass layer\<close>

lemma arcsin_pos: "0 < x \<Longrightarrow> x \<le> 1 \<Longrightarrow> 0 < arcsin x"
  using arcsin_less_arcsin [of 0 x] by simp

lemma hollow_nonzero: "fst (generateBass ''hollow'' 400 (1 / 400) 0 1 (sconst 0)) > 0"
proof -
  have ph: "2 * pi * (400 * 0.5 * 0.7) * (1 / 400) = 7 * pi / 10" by simp
  have "0 < sin (7 * pi / 10)" by (rule sin_gt_zero) (simp_all)
  then have "0 < arcsin (sin (7 * pi / 10))" by (simp add: arcsin_pos)
  then have w: "0 < generateWaveform (400 * 0.5 * 0.7) (1 / 400) Triangle"
    unfolding generateWaveform_def Let_def ph by simp
  have e: "0 < 0.3 * (1 - exp (- (1 / 400) * 0.1 :: real))" by simp
  have eq: "fst (generateBass ''hollow'' 400 (1 / 400) 0 1 (sconst 0))
      = 0.3 * (1 - exp (- (1 / 400) * 0.1)) * generateWaveform (400 * 0.5 * 0.7) (1 / 400) Triangle"
    by (simp add: generateBass_def)
  show ?thesis unfolding eq using e w by (rule mult_pos_pos)
qed

text \<open>
  C7 as stated fails for the style \<open>hollow\<close>: with root frequency 400 at time 1/400 an
  oscillator at half the root (200 Hz) is at a zero of the triangle wave, so any amplitude
  envelope applied to it gives 0; the bass sample is not 0, being the triangle wave at
  \<open>400 * 0.35\<close> Hz.
\<close>

theorem generateBass_half_root_counterexample:
  "generateWaveform (400 * 0.5) (1 / 400) Triangle = 0
   \<and> fst (generateBass ''hollow'' 400 (1 / 400) 0 1 (sconst 0)) \<noteq> 0
   \<and> fst (generateBass ''hollow'' 400 (1 / 400) 0 1 (sconst 0))
       = 0.3 * (1 - exp (- (1 / 400) * 0.1)) * generateWaveform (400 * 0.35) (1 / 400) Triangle"
proof -
  have z: "generateWaveform (400 * 0.5) (1 / 400) Triangle = 0"
    by (simp add: generateWaveform_def)
  have nz: "fst (generateBass ''hollow'' 400 (1 / 400) 0 1 (sconst 0)) \<noteq> 0"
    using hollow_nonzero by simp
  have eq: "fst (generateBass ''hollow'' 400 (1 / 400) 0 1 (sconst 0))
       = 0.3 * (1 - exp (- (1 / 400) * 0.1)) * generateWaveform (400 * 0.35) (1 / 400) Triangle"
    by (simp add: generateBass_def)
  show ?thesis using z nz eq by blast
qed

text \<open>
  C7, amended: for the styles \<open>bouncy\<close>, \<open>pounding\<close>, \<open>gentle\<close>, \<open>soft\<close>, \<open>jumping\<close>,
  \<open>solid\<close> and \<open>warm\<close> the frequency passed to the waveform primitive is
  \<open>rootFreq * 0.5\<close>; for \<open>melancholic\<close> it is \<open>rootFreq * 0.5 * (1 + 0.1 sin (0.3 t))\<close>,
  for \<open>restless\<close> \<open>rootFreq * 0.5 * (1 + 0.4 sin (1.5 t))\<close> and for \<open>hollow\<close>
  \<open>rootFreq * 0.5 * 0.7\<close>.
\<close>

theorem generateBass_oscillator_frequency:
  "fst (generateBass ''bouncy'' r t b c g)
     = 0.4 * (if sin (b * pi * 2) > 0 then 1 else 0.3) * generateWaveform (r * 0.5) t Triangle
  \<and> fst (generateBass ''pounding'' r t b c g)
     = 0.6 * (if c \<noteq> 0 \<and> js_rem (of_int \<lfloor>b * c\<rfloor>) c < 2 then 1 else 0.1)
       * (generateWaveform (r * 0.5) t Sawtooth + 0.3 * fst (generateNoise t g))
  \<and> fst (generateBass ''gentle'' r t b c g)
     = 0.25 * (1 + 0.3 * sin (t * 0.5)) * generateWaveform (r * 0.5) t Sine
  \<and> fst (generateBass ''soft'' r t b c g)
     = 0.2 * sin (t * 0.3 + pi / 4) * generateWaveform (r * 0.5) t Sine
  \<and> fst (generateBass ''jumping'' r t b c g)
     = 0.45 * (if sin (b * pi * 4) > 0.5 then 1 else 0.2) * generateWaveform (r * 0.5) t Triangle
  \<and> fst (generateBass ''solid'' r t b c g) = 0.35 * generateWaveform (r * 0.5) t Sawtooth
  \<and> fst (generateBass ''warm'' r t b c g)
     = 0.3 * (1 + 0.2 * sin (t * 0.8)) * generateWaveform (r * 0.5) t Sine
  \<and> fst (generateBass ''melancholic'' r t b c g)
     = 0.45 * (0.4 + 0.3 * sin (t * 0.2))
       * generateWaveform (r * 0.5 * (1 + 0.1 * sin (t * 0.3))) t Sine
  \<and> fst (generateBass ''restless'' r t b c g)
     = (0.35 + 0.15 * \<bar>sin (t * 2.3)\<bar>)
       * generateWaveform (r * 0.5 * (1 + 0.4 * sin (t * 1.5))) t Triangle
  \<and> fst (generateBass ''hollow'' r t b c g)
     = 0.3 * (1 - exp (- t * 0.1)) * generateWaveform (r * 0.5 * 0.7) t Triangle"
  by (simp add: generateBass_def Let_def split: prod.splits)

subsection \<open>Render loop\<close>

lemma tanh_scaled_bound: "\<bar>tanh x * (9 / 10)\<bar> \<le> 9 / 10" for x :: real
proof -
  have "\<bar>tanh x\<bar> \<le> 1"
    using tanh_real_lt_1 [of x] tanh_real_gt_neg1 [of x] by (simp add: abs_le_iff)
  then show ?thesis by (simp add: abs_mult)
qed

lemma tanh_times_9_bound: "\<bar>tanh x * 9\<bar> \<le> 9" for x :: real
  using tanh_scaled_bound [of x] by simp

lemma renderSample_Own_bound:
  "case renderSample p rate (Own v) i g of Inl e \<Rightarrow> False | Inr (s, g') \<Rightarrow> \<bar>s\<bar> \<le> 9 / 10"
  by (simp add: renderSample_def Let_def tanh_times_9_bound split: prod.splits)

lemma renderSample_Own:
  "\<exists>s g'. renderSample p rate (Own v) i g = Inr (s, g') \<and> \<bar>s\<bar> \<le> 9 / 10"
  using renderSample_Own_bound [of p rate v i g]
  by (auto split: sum.splits prod.splits)

lemma renderSample_Inherited: "renderSample p rate (Inherited n) i g = Inl TypeError"
  by (simp add: renderSample_def Let_def)

lemma renderLoop_Own:
  assumes "length R = length L"
    and "\<forall>j < length L. \<bar>L ! j\<bar> \<le> 9 / 10 \<and> R ! j = L ! j * (95 / 100)"
  shows "\<exists>L' R' g'. renderLoop p rate (Own v) n i (L, R, g) = Inr (L', R', g')
           \<and> length L' = length L \<and> length R' = length L
           \<and> (\<forall>j < length L. \<bar>L' ! j\<bar> \<le> 9 / 10 \<and> R' ! j = L' ! j * (95 / 100))"
  using assms
proof (induction "n - i" arbitrary: i L R g)
  case 0
  then have "\<not> i < n" by simp
  then have "renderLoop p rate (Own v) n i (L, R, g) = Inr (L, R, g)"
    by (subst renderLoop.simps) simp
  with 0 show ?case by simp
next
  case (Suc k)
  then have lt: "i < n" and k: "k = n - Suc i" by simp_all
  obtain s g1 where rs: "renderSample p rate (Own v) i g = Inr (s, g1)"
    and bs: "\<bar>s\<bar> \<le> 9 / 10"
    using renderSample_Own by blast
  let ?L = "L[i := s]" and ?R = "R[i := s * (95 / 100)]"
  have len: "length ?R = length ?L" using Suc.prems(1) by simp
  have inv: "\<forall>j < length ?L. \<bar>?L ! j\<bar> \<le> 9 / 10 \<and> ?R ! j = ?L ! j * (95 / 100)"
  proof (intro allI impI)
    fix j assume "j < length ?L"
    then have j: "j < length L" by simp
    show "\<bar>?L ! j\<bar> \<le> 9 / 10 \<and> ?R ! j = ?L ! j * (95 / 100)"
    proof (cases "j = i")
      case True
      with j Suc.prems(1) bs show ?thesis by simp
    next
      case False
      with j Suc.prems(2) show ?thesis by simp
    qed
  qed
  have step: "renderLoop p rate (Own v) n i (L, R, g) = renderLoop p rate (Own v) n (Suc i) (?L, ?R, g1)"
    using lt rs by (subst renderLoop.simps) simp
  from Suc.hyps(1) [OF k len inv, of g1] show ?case
    unfolding step by simp
qed

lemma generateAudioFromMood_Own:
  assumes "getMoodVibe (rhythm p) (tempo p) (scale_name (scale p)) = Own v"
  shows "\<exists>buf. generateAudioFromMood rate g p = Inr buf
           \<and> numberOfChannels buf = 2 \<and> sampleRate buf = rate
           \<and> length (leftChannel buf) = rate * 30 \<and> length (rightChannel buf) = rate * 30
           \<and> (\<forall>j < rate * 30. \<bar>leftChannel buf ! j\<bar> \<le> 9 / 10
                 \<and> rightChannel buf ! j = leftChannel buf ! j * (95 / 100))"
proof -
  let ?n = "rate * duration"
  let ?Z = "replicate ?n (0::real)"
  have len: "length ?Z = length ?Z" by simp
  have z: "\<forall>j < length ?Z. \<bar>?Z ! j\<bar> \<le> 9 / 10 \<and> ?Z ! j = ?Z ! j * (95 / 100)" by simp
  from renderLoop_Own [OF len z, of p rate v ?n 0 g]
  obtain L' R' g' where
    "renderLoop p rate (Own v) ?n 0 (?Z, ?Z, g) = Inr (L', R', g')"
    "length L' = ?n" "length R' = ?n"
    "\<forall>j < ?n. \<bar>L' ! j\<bar> \<le> 9 / 10 \<and> R' ! j = L' ! j * (95 / 100)"
    by auto
  then show ?thesis
    using assms by (simp add: generateAudioFromMood_def Let_def duration_def)
qed

lemma getMoodVibe_known:
  "r \<in> fst ` set vibes \<Longrightarrow> \<exists>v. getMoodVibe r t s = Own v"
  by (auto simp: getMoodVibe_def weak_map_of_SomeI split: option.splits
      dest!: map_of_eq_None_iff [THEN iffD1])

text \<open>
  C1: for each of the ten rhythm identifiers, any key, either scale and any positive
  tempo, \<open>generateAudioFromMood\<close> returns a buffer of two channels, each of length
  \<open>sampleRate * 30\<close>, with every sample of both channels in \<open>[-1, 1]\<close>: the left sample
  has magnitude at most 0.9 and the right sample is the left one times 0.95.
\<close>

theorem generateAudioFromMood_buffer:
  assumes "rhythm p \<in> fst ` set vibes" and "0 < tempo p"
  shows "\<exists>buf. generateAudioFromMood rate g p = Inr buf
           \<and> numberOfChannels buf = 2
           \<and> length (leftChannel buf) = rate * 30 \<and> length (rightChannel buf) = rate * 30
           \<and> (\<forall>x \<in> set (leftChannel buf). - 1 \<le> x \<and> x \<le> 1)
           \<and> (\<forall>x \<in> set (rightChannel buf). - 1 \<le> x \<and> x \<le> 1)
           \<and> (\<forall>j < rate * 30. \<bar>leftChannel buf ! j\<bar> \<le> 9 / 10
                 \<and> rightChannel buf ! j = leftChannel buf ! j * (95 / 100))"
proof -
  obtain v where v: "getMoodVibe (rhythm p) (tempo p) (scale_name (scale p)) = Own v"
    using getMoodVibe_known [OF assms(1)] by blast
  from generateAudioFromMood_Own [OF v, of rate g]
  obtain buf where b: "generateAudioFromMood rate g p = Inr buf" "numberOfChannels buf = 2"
    "length (leftChannel buf) = rate * 30" "length (rightChannel buf) = rate * 30"
    and inv: "\<forall>j < rate * 30. \<bar>leftChannel buf ! j\<bar> \<le> 9 / 10
                 \<and> rightChannel buf ! j = leftChannel buf ! j * (95 / 100)"
    by blast
  have L: "- 1 \<le> x \<and> x \<le> 1" if "x \<in> set (leftChannel buf)" for x
  proof -
    from that obtain j where "j < rate * 30" "x = leftChannel buf ! j"
      using b(3) by (metis in_set_conv_nth)
    with inv have "\<bar>x\<bar> \<le> 9 / 10" by simp
    then show ?thesis by arith
  qed
  have R: "- 1 \<le> x \<and> x \<le> 1" if "x \<in> set (rightChannel buf)" for x
  proof -
    from that obtain j where j: "j < rate * 30" "x = rightChannel buf ! j"
      using b(4) by (metis in_set_conv_nth)
    with inv have "\<bar>leftChannel buf ! j\<bar> \<le> 9 / 10" and "x = leftChannel buf ! j * (95 / 100)"
      by simp_all
    then show ?thesis by arith
  qed
  from b inv L R show ?thesis by blast
qed

theorem generateAudioFromMood_buffer_witness:
  "rhythm \<lparr>tempo = 120, key = ''C'', scale = Major, rhythm = ''upbeat''\<rparr> \<in> fst ` set vibes
   \<and> (0::real) < tempo \<lparr>tempo = 120, key = ''C'', scale = Major, rhythm = ''upbeat''\<rparr>
   \<and> (\<exists>buf. generateAudioFromMood 2 (sconst 0)
               \<lparr>tempo = 120, key = ''C'', scale = Major, rhythm = ''upbeat''\<rparr> = Inr buf
         \<and> length (leftChannel buf) = 60 \<and> length (rightChannel buf) = 60
         \<and> (\<forall>x \<in> set (leftChannel buf). - 1 \<le> x \<and> x \<le> 1)
         \<and> (\<forall>x \<in> set (rightChannel buf). - 1 \<le> x \<and> x \<le> 1))"
proof -
  let ?p = "\<lparr>tempo = 120, key = ''C'', scale = Major, rhythm = ''upbeat''\<rparr>"
  have h1: "rhythm ?p \<in> fst ` set vibes" by (simp add: vibes_def)
  have h2: "0 < tempo ?p" by simp
  show ?thesis
    using h1 h2 generateAudioFromMood_buffer [OF h1 h2, of 2 "sconst 0"] by auto
qed

subsection \<open>Determinism\<close>

lemma generateBass_no_noise:
  "bt \<noteq> ''pounding'' \<Longrightarrow>
     generateBass bt r t b c g = (fst (generateBass bt r t b c g0), g)"
  by (simp add: generateBass_def Let_def)

lemma applyEffect_no_noise:
  "e \<noteq> ''fizz'' \<Longrightarrow>
     applyEffect s t r tmp e (x, g) = (fst (applyEffect s t r tmp e (x, g0)), g)"
  by (simp add: applyEffect_def Let_def)

lemma applyEffects_no_noise:
  "''fizz'' \<notin> set es \<Longrightarrow>
     applyEffects s t r tmp es (x, g) = (fst (applyEffects s t r tmp es (x, g0)), g)"
proof (induction es arbitrary: x)
  case Nil
  show ?case by simp
next
  case (Cons e es)
  then have e: "e \<noteq> ''fizz''" and es: "''fizz'' \<notin> set es" by auto
  obtain y where y: "\<And>h. applyEffect s t r tmp e (x, h) = (y, h)"
    using applyEffect_no_noise [OF e, of s t r tmp x _ g0] by blast
  show ?case
    using Cons.IH [OF es, of y] by (simp add: y)
qed

lemma renderSample_no_noise:
  assumes "bassType v \<noteq> ''pounding''" and "''fizz'' \<notin> set (effects v)"
  shows "renderSample p rate (Own v) i g
           = map_sum id (\<lambda>(y, _). (y, g)) (renderSample p rate (Own v) i g0)"
proof -
  define bassPure where
    "bassPure = (\<lambda>r t b c. fst (generateBass (bassType v) r t b c (sconst 0)))"
  define effectsPure where
    "effectsPure = (\<lambda>s t r tmp. fst (applyEffects s t r tmp (effects v) (s, sconst 0)))"
  have B: "generateBass (bassType v) r t b c g = (bassPure r t b c, g)" for r t b c g
    unfolding bassPure_def by (rule generateBass_no_noise [OF assms(1)])
  have E: "applyMoodEffects s (effects v) t r tmp g = (effectsPure s t r tmp, g)" for s t r tmp g
    unfolding effectsPure_def applyMoodEffects_def by (rule applyEffects_no_noise [OF assms(2)])
  show ?thesis
    by (simp add: renderSample_def Let_def B E)
qed

lemma renderLoop_no_noise:
  assumes "bassType v \<noteq> ''pounding''" and "''fizz'' \<notin> set (effects v)"
  shows "\<exists>L' R'. \<forall>g. renderLoop p rate (Own v) n i (L, R, g) = Inr (L', R', g)"
proof (induction "n - i" arbitrary: i L R)
  case 0
  then have "\<not> i < n" by simp
  then have "renderLoop p rate (Own v) n i (L, R, g) = Inr (L, R, g)" for g
    by (subst renderLoop.simps) simp
  then show ?case by blast
next
  case (Suc k)
  then have lt: "i < n" and k: "k = n - Suc i" by simp_all
  obtain y g' where "renderSample p rate (Own v) i (sconst 0) = Inr (y, g')"
    by (cases "renderSample p rate (Own v) i (sconst 0)")
       (auto simp: renderSample_def Let_def split: prod.splits)
  then have y: "renderSample p rate (Own v) i g = Inr (y, g)" for g
    using renderSample_no_noise [OF assms, of p rate i g "sconst 0"] by simp
  have step: "renderLoop p rate (Own v) n i (L, R, g)
      = renderLoop p rate (Own v) n (Suc i) (L[i := y], R[i := y * 0.95], g)" for g
    using lt by (subst renderLoop.simps) (simp add: y)
  from Suc.hyps(1) [OF k, of "L[i := y]" "R[i := y * 0.95]"] show ?case
    unfolding step by simp
qed

lemma renderLoop_Inherited:
  "renderLoop p rate (Inherited nm) n i (L, R, g)
     = (if i < n then Inl TypeError else Inr (L, R, g))"
  by (subst renderLoop.simps) (simp add: renderSample_def Let_def)

lemma getMoodVibe_no_noise:
  assumes "getMoodVibe r t s = Own v" and "r \<noteq> ''driving''" and "r \<noteq> ''energetic''"
  shows "bassType v \<noteq> ''pounding'' \<and> ''fizz'' \<notin> set (effects v)"
  using assms
  by (auto simp: getMoodVibe_def vibes_def split: if_splits)

text \<open>
  C8: for every rhythm other than \<open>driving\<close> and \<open>energetic\<close>, the rendered buffer does
  not depend on the random source: two renders of the same parameters are equal.
\<close>

theorem generateAudioFromMood_deterministic:
  assumes "rhythm p \<noteq> ''driving''" and "rhythm p \<noteq> ''energetic''"
  shows "generateAudioFromMood rate g1 p = generateAudioFromMood rate g2 p"
proof (cases "getMoodVibe (rhythm p) (tempo p) (scale_name (scale p))")
  case (Own v)
  from getMoodVibe_no_noise [OF Own assms]
  have nn: "bassType v \<noteq> ''pounding''" "''fizz'' \<notin> set (effects v)" by simp_all
  let ?n = "rate * duration"
  obtain L' R' where
    "\<And>g. renderLoop p rate (Own v) ?n 0 (replicate ?n 0, replicate ?n 0, g) = Inr (L', R', g)"
    using renderLoop_no_noise [OF nn, of p rate ?n 0 "replicate ?n 0" "replicate ?n 0"] by blast
  then show ?thesis
    by (simp add: generateAudioFromMood_def Let_def Own)
next
  case (Inherited nm)
  show ?thesis
    by (simp add: generateAudioFromMood_def Let_def Inherited renderLoop_Inherited)
qed

theorem generateAudioFromMood_deterministic_witness:
  "rhythm \<lparr>tempo = 60, key = ''D'', scale = Minor, rhythm = ''slow''\<rparr> \<noteq> ''driving''
   \<and> rhythm \<lparr>tempo = 60, key = ''D'', scale = Minor, rhythm = ''slow''\<rparr> \<noteq> ''energetic''
   \<and> generateAudioFromMood 3 (sconst 0) \<lparr>tempo = 60, key = ''D'', scale = Minor, rhythm = ''slow''\<rparr>
       = generateAudioFromMood 3 (sconst (1 / 2))
           \<lparr>tempo = 60, key = ''D'', scale = Minor, rhythm = ''slow''\<rparr>"
proof -
  let ?p = "\<lparr>tempo = 60, key = ''D'', scale = Minor, rhythm = ''slow''\<rparr>"
  have h1: "rhythm ?p \<noteq> ''driving''" and h2: "rhythm ?p \<noteq> ''energetic''" by simp_all
  show ?thesis
    using h1 h2 generateAudioFromMood_deterministic [OF h1 h2, of 3 "sconst 0" "sconst (1 / 2)"]
    by blast
qed

subsection \<open>Mood detection\<close>

lemma prefix_take_iff: "prefix kw t \<longleftrightarrow> take (length kw) t = kw"
  by (metis append_eq_conv_conj prefix_def append_take_drop_id)

lemma countMatches_pos_iff:
  "kw \<noteq> [] \<Longrightarrow> (0 < countMatches kw t) = sublist kw t"
proof (induction kw t rule: countMatches.induct)
  case (1 kw t)
  show ?case
  proof (cases t)
    case Nil
    with "1.prems" show ?thesis by (subst countMatches.simps) simp
  next
    case (Cons c cs)
    show ?thesis
    proof (cases "take (length kw) t = kw")
      case True
      then have "sublist kw t" by (metis append_take_drop_id sublist_append_rightI)
      moreover have "0 < countMatches kw t"
        using True "1.prems" Cons by (subst countMatches.simps) simp
      ultimately show ?thesis by simp
    next
      case False
      then have np: "\<not> prefix kw t" by (simp add: prefix_take_iff)
      have "countMatches kw t = countMatches kw (tl t)"
        using False "1.prems" Cons by (subst countMatches.simps) simp
      moreover have "0 < countMatches kw (tl t) \<longleftrightarrow> sublist kw (tl t)"
        using "1.IH"(2) [OF "1.prems" _ False "1.prems"] Cons by simp
      moreover have "sublist kw t \<longleftrightarrow> sublist kw (tl t)"
        using np Cons by (simp add: sublist_Cons_right)
      ultimately show ?thesis by simp
    qed
  qed
qed

lemma foldl_add_zero:
  "(\<forall>kw \<in> set kws. f kw = (0::nat)) \<Longrightarrow> foldl (\<lambda>score kw. score + f kw) a kws = a"
  by (induction kws arbitrary: a) simp_all

lemma keywords_nonempty: "\<forall>kw \<in> set (concat (map snd moodKeywords)). kw \<noteq> []"
  by (simp add: moodKeywords_def)

lemma moodScores_fst: "map fst (moodScores t) = MOODS"
  by (simp add: moodScores_def moodKeywords_def MOODS_def)

lemma moodScores_zero:
  assumes "\<forall>kw \<in> set (concat (map snd moodKeywords)). \<not> sublist kw t"
  shows "\<forall>e \<in> set (moodScores t). snd e = 0"
proof -
  have "countMatches kw t = 0" if "kw \<in> set (concat (map snd moodKeywords))" for kw
    using that assms keywords_nonempty countMatches_pos_iff [of kw t] by auto
  then have "foldl (\<lambda>score kw. score + countMatches kw t) 0 kws = 0"
    if "(m, kws) \<in> set moodKeywords" for m kws
    using that by (intro foldl_add_zero) force
  then show ?thesis
    by (auto simp: moodScores_def)
qed

lemma foldl_pick_in:
  "foldl (\<lambda>a b. if P a b then a else b) a bs \<in> set (a # bs)"
  by (induction bs arbitrary: a) auto

lemma topMoodOf_in: "scores \<noteq> [] \<Longrightarrow> topMoodOf scores \<in> set scores"
  using foldl_pick_in [of _ "hd scores" "tl scores"]
  by (cases scores) (simp_all add: topMoodOf_def)

lemma moodScores_nonempty: "moodScores t \<noteq> []"
  by (simp add: moodScores_def moodKeywords_def)

lemma Math_round_clamped:
  "30 \<le> Math_round (min 95 (max 30 x)) \<and> Math_round (min 95 (max 30 x)) \<le> 95"
proof -
  have "30 \<le> min 95 (max 30 x) + 1 / 2" and "min 95 (max 30 x) + 1 / 2 < 96"
    by linarith+
  then show ?thesis
    unfolding Math_round_def by (simp add: le_floor_iff floor_le_iff)
qed

text \<open>
  C9: for every text the detected mood is one of the ten canonical moods and the
  confidence is an integer between 30 and 95; when no keyword of any mood occurs in the
  lower-cased text the mood is \<open>calm\<close>.
\<close>

theorem analyzeMoodFromText_range:
  "mood (analyzeMoodFromText t) \<in> set MOODS
   \<and> 30 \<le> confidence (analyzeMoodFromText t)
   \<and> confidence (analyzeMoodFromText t) \<le> 95
   \<and> ((\<forall>kw \<in> set (concat (map snd moodKeywords)). \<not> sublist kw (toLowerCase t))
        \<longrightarrow> mood (analyzeMoodFromText t) = ''calm'')"
proof -
  let ?s = "moodScores (toLowerCase t)"
  let ?t = "topMoodOf ?s"
  have tin: "?t \<in> set ?s" by (rule topMoodOf_in [OF moodScores_nonempty])
  then have "fst ?t \<in> set (map fst ?s)" by (simp del: moodScores_fst)
  then have f: "fst ?t \<in> set MOODS" by (simp only: moodScores_fst)
  have c: "''calm'' \<in> set MOODS" by (simp add: MOODS_def)
  have m: "mood (analyzeMoodFromText t) = (if snd ?t > 0 then fst ?t else ''calm'')"
    by (simp add: analyzeMoodFromText_def Let_def)
  have 1: "mood (analyzeMoodFromText t) \<in> set MOODS"
    unfolding m using f c by simp
  have 2: "30 \<le> confidence (analyzeMoodFromText t) \<and> confidence (analyzeMoodFromText t) \<le> 95"
    unfolding analyzeMoodFromText_def Let_def MoodDetection.select_convs
    by (rule Math_round_clamped)
  have 3: "mood (analyzeMoodFromText t) = ''calm''"
    if "\<forall>kw \<in> set (concat (map snd moodKeywords)). \<not> sublist kw (toLowerCase t)"
    using moodScores_zero [OF that] tin unfolding m by auto
  from 1 2 3 show ?thesis by blast
qed

theorem analyzeMoodFromText_range_witness:
  "mood (analyzeMoodFromText ''so so'') = ''calm''
   \<and> 30 \<le> confidence (analyzeMoodFromText ''so so'')
   \<and> confidence (analyzeMoodFromText ''so so'') \<le> 95"
proof -
  have h: "\<forall>kw \<in> set (concat (map snd moodKeywords)). \<not> sublist kw (toLowerCase ''so so'')"
    by (simp add: moodKeywords_def toLowerCase_def toLowerChar_def sublist_Cons_right)
  show ?thesis using h analyzeMoodFromText_range [of "''so so''"] by blast
qed

subsection \<open>Track duration\<close>

lemma duration_draw_range:
  "0 \<le> r \<Longrightarrow> r < 1 \<Longrightarrow> 30 \<le> \<lfloor>r * 30\<rfloor> + 30 \<and> \<lfloor>r * 30\<rfloor> + 30 \<le> 59" for r :: real
proof -
  assume "0 \<le> r" and "r < 1"
  then have "0 \<le> r * 30" and "r * 30 < 30" by simp_all
  then have "0 \<le> \<lfloor>r * 30\<rfloor>" and "\<lfloor>r * 30\<rfloor> < 30" by (simp_all add: floor_less_iff)
  then show ?thesis by simp
qed

lemma validRandom_shd: "validRandom g \<Longrightarrow> 0 \<le> shd g \<and> shd g < 1"
  by (simp add: validRandom_def shd_sset)

lemma validRandom_stl: "validRandom g \<Longrightarrow> validRandom (stl g)"
  by (auto simp: validRandom_def dest: stl_sset)

lemma validRandom_sconst: "validRandom (sconst (1 / 2))"
  by (simp add: validRandom_def)

lemma generateMusicParameters_MOODS:
  "m \<in> set MOODS \<Longrightarrow> \<exists>p. generateMusicParameters m = Own p \<and> rhythm p \<in> fst ` set vibes"
  by (auto simp: MOODS_def generateMusicParameters_def moodParams_def vibes_def)

lemma generateMusicRoute_Json:
  assumes "m \<in> set MOODS"
  shows "generateMusicRoute m g uuid now store
    = (let track = \<lparr>track_id = uuid, track_title = trackTitle m (fst (getRandomTitle g)),
                     track_mood = m, track_moodEmoji = getMoodEmoji m,
                     track_duration = \<lfloor>shd (stl g) * 30\<rfloor> + 30,
                     track_audioData = None, track_userId = None, track_createdAt = now\<rparr>
       in (Json \<lparr>res_trackId = uuid, res_title = track_title track, res_mood = m,
                  res_emoji = getMoodEmoji m, res_duration = track_duration track,
                  res_musicParams = generateMusicParameters m\<rparr>,
           store(uuid \<mapsto> track), stl (stl g)))"
  using assms
  by (simp add: generateMusicRoute_def getRandomTitle_def Math_random_def Let_def)

lemma generateMusicRoute_Status400:
  "m \<notin> set MOODS \<Longrightarrow> generateMusicRoute m g uuid now store = (Status400, store, g)"
  by (simp add: generateMusicRoute_def)

text \<open>
  C10: for every successful generate-music request the duration stored with the track
  and returned in the response is the integer \<open>floor (r * 30) + 30\<close> for a random draw
  \<open>r\<close>, hence between 30 and 60. For some draws it differs from 30, while the buffer that
  \<open>generateAudioFromMood\<close> renders from the music parameters of the same response always
  holds \<open>sampleRate * 30\<close> samples, that is 30 seconds.
\<close>

theorem generateMusicRoute_duration:
  assumes "validRandom g"
    and "generateMusicRoute m g uuid now store = (Json res, store', g')"
  shows "m \<in> set MOODS
         \<and> 30 \<le> res_duration res \<and> res_duration res \<le> 60
         \<and> res_duration res = \<lfloor>shd (stl g) * 30\<rfloor> + 30
         \<and> (\<exists>t. store' uuid = Some t \<and> track_duration t = res_duration res)
         \<and> (\<exists>h res2 store2 h2 p buf.
               validRandom h
               \<and> generateMusicRoute m h uuid now store = (Json res2, store2, h2)
               \<and> res_musicParams res2 = Own p
               \<and> generateAudioFromMood rate h2 p = Inr buf
               \<and> length (leftChannel buf) = sampleRate buf * 30
               \<and> res_duration res2 \<noteq> 30)"
proof -
  have m: "m \<in> set MOODS"
    using assms(2) generateMusicRoute_Status400 [of m g uuid now store] by auto
  have "0 \<le> shd (stl g) \<and> shd (stl g) < 1"
    using assms(1) validRandom_stl validRandom_shd by blast
  then have r: "30 \<le> \<lfloor>shd (stl g) * 30\<rfloor> + 30 \<and> \<lfloor>shd (stl g) * 30\<rfloor> + 30 \<le> 59"
    using duration_draw_range by blast
  have 1: "30 \<le> res_duration res \<and> res_duration res \<le> 60
         \<and> res_duration res = \<lfloor>shd (stl g) * 30\<rfloor> + 30
         \<and> (\<exists>t. store' uuid = Some t \<and> track_duration t = res_duration res)"
    using assms(2) r by (auto simp: generateMusicRoute_Json [OF m] Let_def)
  let ?h = "sconst (1 / 2 :: real)"
  obtain p where p: "generateMusicParameters m = Own p" "rhythm p \<in> fst ` set vibes"
    using generateMusicParameters_MOODS [OF m] by blast
  obtain v where v: "getMoodVibe (rhythm p) (tempo p) (scale_name (scale p)) = Own v"
    using getMoodVibe_known [OF p(2)] by blast
  obtain buf where buf: "generateAudioFromMood rate ?h p = Inr buf"
    "sampleRate buf = rate" "length (leftChannel buf) = rate * 30"
    using generateAudioFromMood_Own [OF v, of rate ?h] by blast
  have d: "\<lfloor>shd (stl ?h) * 30\<rfloor> + 30 \<noteq> (30::int)" by simp
  have 2: "\<exists>h res2 store2 h2 p buf.
               validRandom h
               \<and> generateMusicRoute m h uuid now store = (Json res2, store2, h2)
               \<and> res_musicParams res2 = Own p
               \<and> generateAudioFromMood rate h2 p = Inr buf
               \<and> length (leftChannel buf) = sampleRate buf * 30
               \<and> res_duration res2 \<noteq> 30"
    using validRandom_sconst p(1) buf d
    by (intro exI [of _ ?h]) (simp add: generateMusicRoute_Json [OF m] Let_def)
  from m 1 2 show ?thesis by blast
qed

theorem generateMusicRoute_duration_witness:
  "validRandom (sconst (1 / 2))
   \<and> (\<exists>res store' g'.
         generateMusicRoute ''happy'' (sconst (1 / 2)) ''track-1'' 0 Map.empty = (Json res, store', g')
         \<and> res_duration res = 45 \<and> 30 \<le> res_duration res \<and> res_duration res \<le> 60
         \<and> (\<exists>t. store' ''track-1'' = Some t \<and> track_duration t = res_duration res))"
proof -
  have h1: "validRandom (sconst (1 / 2))" by (simp add: validRandom_def)
  have "''happy'' \<in> set MOODS" by (simp add: MOODS_def)
  then obtain res store' g' where
    h2: "generateMusicRoute ''happy'' (sconst (1 / 2)) ''track-1'' 0 Map.empty = (Json res, store', g')"
    by (simp add: generateMusicRoute_Json Let_def)
  have "res_duration res = 45"
    using generateMusicRoute_duration [OF h1 h2] by simp
  then show ?thesis
    using h1 h2 generateMusicRoute_duration [OF h1 h2] by blast
qed

end
